theory Spec2Isabelle
  imports Main "HOL-Library.Product_Lexorder" "HOL-Library.Multiset"
begin

section \<open>Day 19: scanner alignment (src/2021/day19/main.py)\<close>

text \<open>
  Coordinates are numpy integers in the source; they are modelled as mathematical
  integers (\<open>int\<close>).  Points are triples, the rotation matrix is a triple of rows.
  A Python exception is a value of type \<open>error\<close>; an \<open>AssertionError\<close> carries the
  source line of the failing \<open>assert\<close>.
\<close>

datatype error = IndexError | TypeError | AssertionError nat

type_synonym vec3 = "int \<times> int \<times> int"
type_synonym mat3 = "vec3 \<times> vec3 \<times> vec3"

definition bind_err :: "error + 'a \<Rightarrow> ('a \<Rightarrow> error + 'b) \<Rightarrow> error + 'b" where
  "bind_err m f = (case m of Inl e \<Rightarrow> Inl e | Inr x \<Rightarrow> f x)"

text \<open>Python list indexing with a non-negative index.\<close>

definition nth_err :: "'a list \<Rightarrow> nat \<Rightarrow> error + 'a" where
  "nth_err xs n = (if n < length xs then Inr (xs ! n) else Inl IndexError)"

subsection \<open>Geometry primitives\<close>

fun delta :: "vec3 \<Rightarrow> vec3 \<Rightarrow> vec3" where
  "delta (x1, y1, z1) (x2, y2, z2) = (x2 - x1, y2 - y1, z2 - z1)"

fun manhatan_distance :: "vec3 \<Rightarrow> vec3 \<Rightarrow> int" where
  "manhatan_distance point01 point02 =
     (case delta point01 point02 of (dx, dy, dz) \<Rightarrow> \<bar>dx\<bar> + \<bar>dy\<bar> + \<bar>dz\<bar>)"

fun squared_distance :: "vec3 \<Rightarrow> vec3 \<Rightarrow> int" where
  "squared_distance point01 point02 =
     (case delta point01 point02 of (dx, dy, dz) \<Rightarrow> dx ^ 2 + dy ^ 2 + dz ^ 2)"

subsection \<open>Edge and Scanner\<close>

datatype Edge = Edge (edge_i: nat) (edge_j: nat) (weight: int)

text \<open>
  \<open>graph\<close> and \<open>unique_edges_by_weight\<close> are \<open>None\<close> until \<open>build_graph\<close> runs.
\<close>

record Scanner =
  index :: nat
  translation :: vec3
  rotation_matrix :: mat3
  scans :: "vec3 list"
  graph :: "int list list option"
  unique_edges_by_weight :: "Edge list option"

definition identity3 :: mat3 where
  "identity3 = ((1, 0, 0), (0, 1, 0), (0, 0, 1))"

definition zeros3 :: vec3 where
  "zeros3 = (0, 0, 0)"

definition zeros33 :: mat3 where
  "zeros33 = ((0, 0, 0), (0, 0, 0), (0, 0, 0))"

definition new_Scanner :: "nat \<Rightarrow> Scanner" where
  "new_Scanner idx =
     \<lparr> index = idx, translation = zeros3, rotation_matrix = identity3,
       scans = [], graph = None, unique_edges_by_weight = None \<rparr>"

definition size_scanner :: "Scanner \<Rightarrow> nat" where
  "size_scanner s = length (scans s)"

definition get_origin :: "Scanner \<Rightarrow> vec3" where
  "get_origin s = translation s"

fun dot_row :: "vec3 \<Rightarrow> vec3 \<Rightarrow> int" where
  "dot_row (a, b, c) (x, y, z) = a * x + b * y + c * z"

fun mat_vec :: "mat3 \<Rightarrow> vec3 \<Rightarrow> vec3" where
  "mat_vec (r0, r1, r2) p = (dot_row r0 p, dot_row r1 p, dot_row r2 p)"

fun vec_add :: "vec3 \<Rightarrow> vec3 \<Rightarrow> vec3" where
  "vec_add (x1, y1, z1) (x2, y2, z2) = (x1 + x2, y1 + y2, z1 + z2)"

text \<open>The body of \<open>get_scan\<close>: rotation_matrix . point + translation.\<close>

definition transform :: "Scanner \<Rightarrow> vec3 \<Rightarrow> vec3" where
  "transform s p = vec_add (mat_vec (rotation_matrix s) p) (translation s)"

definition get_scan :: "Scanner \<Rightarrow> nat \<Rightarrow> error + vec3" where
  "get_scan s n = bind_err (nth_err (scans s) n) (\<lambda>p. Inr (transform s p))"

text \<open>
  \<open>get_scans\<close> calls \<open>get_scan\<close> for every index in range, so no lookup fails; the
  result is sorted by \<open>tuple(x)\<close>, the lexicographic order of triples.
\<close>

definition get_scans :: "Scanner \<Rightarrow> vec3 list" where
  "get_scans s = sort (map (transform s) (scans s))"

definition set_rotation :: "Scanner \<Rightarrow> mat3 \<Rightarrow> Scanner" where
  "set_rotation s r = s\<lparr>rotation_matrix := r\<rparr>"

definition set_translation :: "Scanner \<Rightarrow> vec3 \<Rightarrow> Scanner" where
  "set_translation s t = s\<lparr>translation := t\<rparr>"

definition reset_rotation :: "Scanner \<Rightarrow> Scanner" where
  "reset_rotation s = s\<lparr>rotation_matrix := identity3\<rparr>"

definition reset_translation :: "Scanner \<Rightarrow> Scanner" where
  "reset_translation s = s\<lparr>translation := zeros3\<rparr>"

definition add_scan :: "Scanner \<Rightarrow> vec3 \<Rightarrow> Scanner" where
  "add_scan s p = s\<lparr>scans := scans s @ [p]\<rparr>"

text \<open>
  \<open>build_graph\<close>: the points are sorted first (line 97).  The double loop writes cell
  \<open>(a, b)\<close> and \<open>(b, a)\<close> with the distance computed at \<open>index01 = min a b\<close>,
  \<open>index02 = max a b\<close>, and collects the edges of positive weight in loop order; the
  edge list is then sorted by weight with a stable sort.
\<close>

definition graph_cell :: "vec3 list \<Rightarrow> nat \<Rightarrow> nat \<Rightarrow> int" where
  "graph_cell ps a b =
     (if a \<le> b then squared_distance (ps ! a) (ps ! b) else squared_distance (ps ! b) (ps ! a))"

definition graph_of :: "vec3 list \<Rightarrow> int list list" where
  "graph_of ps = map (\<lambda>a. map (\<lambda>b. graph_cell ps a b) [0..<length ps]) [0..<length ps]"

definition edges_of :: "vec3 list \<Rightarrow> Edge list" where
  "edges_of ps =
     concat (map (\<lambda>index01.
        concat (map (\<lambda>index02.
           (let d = squared_distance (ps ! index01) (ps ! index02)
            in if d > 0 then [Edge index01 index02 d] else []))
          [index01..<length ps]))
       [0..<length ps])"

definition build_graph :: "Scanner \<Rightarrow> Scanner" where
  "build_graph s =
     (let ps = sort (scans s)
      in s\<lparr> scans := ps,
             graph := Some (graph_of ps),
             unique_edges_by_weight := Some (sort_key weight (edges_of ps)) \<rparr>)"

subsection \<open>SubGraphIsomorphism\<close>

text \<open>
  The Python dict \<open>map\<close> keeps insertion order: an association list with distinct keys.
  Assigning to an existing key keeps its position, a new key goes to the end.
\<close>

fun dict_set :: "(nat \<times> nat) list \<Rightarrow> nat \<Rightarrow> nat \<Rightarrow> (nat \<times> nat) list" where
  "dict_set [] k v = [(k, v)]"
| "dict_set ((k', v') # rest) k v =
     (if k' = k then (k, v) # rest else (k', v') # dict_set rest k v)"

record SubGraphIsomorphism =
  scanner01 :: Scanner
  scanner02 :: Scanner
  map_d :: "(nat \<times> nat) list"

definition new_SubGraphIsomorphism :: "Scanner \<Rightarrow> Scanner \<Rightarrow> SubGraphIsomorphism" where
  "new_SubGraphIsomorphism s01 s02 = \<lparr> scanner01 = s01, scanner02 = s02, map_d = [] \<rparr>"

definition get_map :: "SubGraphIsomorphism \<Rightarrow> nat \<Rightarrow> nat option" where
  "get_map m i01 = map_of (map_d m) i01"

definition size_iso :: "SubGraphIsomorphism \<Rightarrow> nat" where
  "size_iso m = length (map_d m)"

definition add :: "SubGraphIsomorphism \<Rightarrow> nat \<Rightarrow> nat \<Rightarrow> SubGraphIsomorphism" where
  "add m j01 j02 = m\<lparr>map_d := dict_set (map_d m) j01 j02\<rparr>"

text \<open>\<open>scanner.graph[a][b]\<close> on the numpy matrix, or on \<open>None\<close>.\<close>

definition graph_at :: "Scanner \<Rightarrow> nat \<Rightarrow> nat \<Rightarrow> error + int" where
  "graph_at s a b =
     (case graph s of
        None \<Rightarrow> Inl TypeError
      | Some g \<Rightarrow> bind_err (nth_err g a) (\<lambda>row. nth_err row b))"

fun test_items :: "SubGraphIsomorphism \<Rightarrow> nat \<Rightarrow> nat \<Rightarrow> (nat \<times> nat) list \<Rightarrow> error + bool" where
  "test_items m j01 j02 [] = Inr True"
| "test_items m j01 j02 ((i01, i02) # rest) =
     bind_err (graph_at (scanner01 m) i01 j01) (\<lambda>w1.
     bind_err (graph_at (scanner02 m) i02 j02) (\<lambda>w2.
       if w1 \<noteq> w2 then Inr False else test_items m j01 j02 rest))"

definition test_edge_addition :: "SubGraphIsomorphism \<Rightarrow> nat \<Rightarrow> nat \<Rightarrow> error + bool" where
  "test_edge_addition m j01 j02 =
     (case map_of (map_d m) j01 of
        Some v \<Rightarrow> Inr (v = j02)
      | None \<Rightarrow> test_items m j01 j02 (map_d m))"

subsection \<open>find_subgraph_isomorphism\<close>

text \<open>Lines 164-166: the inner \<open>while\<close> of the merge-join, returning the new \<open>index02\<close>.\<close>

function advance :: "Edge list \<Rightarrow> nat \<Rightarrow> int \<Rightarrow> nat" where
  "advance es02 index02 w =
     (if weight (es02 ! index02) < w \<and> index02 + 1 < length es02
      then advance es02 (index02 + 1) w else index02)"
  by pat_completeness auto
termination
  by (relation "measure (\<lambda>(es02, index02, w). length es02 - index02)") auto

declare advance.simps [simp del]

text \<open>Lines 163-168: the \<open>for\<close> loop over scanner01's edges.\<close>

fun match_loop :: "Edge list \<Rightarrow> Edge list \<Rightarrow> nat \<Rightarrow> (Edge \<times> Edge) list" where
  "match_loop [] es02 index02 = []"
| "match_loop (edge01 # es01) es02 index02 =
     (let k = advance es02 index02 (weight edge01);
          edge02 = es02 ! k
      in (if weight edge01 = weight edge02 then [(edge01, edge02)] else [])
         @ match_loop es01 es02 k)"

text \<open>
  Lines 160-168.  Line 162 reads position 0 of scanner02's edge list before scanner01's
  edge list is touched.
\<close>

definition matched_edges :: "Scanner \<Rightarrow> Scanner \<Rightarrow> error + (Edge \<times> Edge) list" where
  "matched_edges s01 s02 =
     (case unique_edges_by_weight s02 of
        None \<Rightarrow> Inl TypeError
      | Some es02 \<Rightarrow>
          if es02 = [] then Inl IndexError
          else (case unique_edges_by_weight s01 of
                  None \<Rightarrow> Inl TypeError
                | Some es01 \<Rightarrow> Inr (match_loop es01 es02 0)))"

text \<open>
  Lines 193-199 (and 202-208 with the roles of \<open>i02\<close>, \<open>j02\<close> swapped): a deep copy of
  the map is extended by two assignments, each tested first.
\<close>

definition try_add ::
  "SubGraphIsomorphism \<Rightarrow> nat \<Rightarrow> nat \<Rightarrow> nat \<Rightarrow> nat \<Rightarrow> error + SubGraphIsomorphism option" where
  "try_add m a a' b b' =
     bind_err (test_edge_addition m a a') (\<lambda>t1.
       if t1 then
         (let new_map = add m a a'
          in bind_err (test_edge_addition new_map b b') (\<lambda>t2.
               Inr (if t2 then Some (add new_map b b') else None)))
       else Inr None)"

definition push_opt ::
  "SubGraphIsomorphism option \<Rightarrow> SubGraphIsomorphism list \<times> bool \<Rightarrow> SubGraphIsomorphism list \<times> bool" where
  "push_opt r st = (case r of None \<Rightarrow> st | Some new_map \<Rightarrow> (fst st @ [new_map], True))"

text \<open>Lines 182-212: the body of the \<open>while\<close> loop for one popped map.\<close>

definition absorb_one ::
  "nat \<Rightarrow> nat \<Rightarrow> nat \<Rightarrow> nat \<Rightarrow> SubGraphIsomorphism \<Rightarrow> SubGraphIsomorphism list \<times> bool
     \<Rightarrow> error + SubGraphIsomorphism list \<times> bool" where
  "absorb_one i01 j01 i02 j02 m st =
     (let st1 = (if get_map m i01 = Some i02 \<and> get_map m j01 = Some j02
                 then (fst st @ [m], True) else st);
          st2 = (if get_map m i01 = Some j02 \<and> get_map m j01 = Some i02
                 then (fst st1 @ [m], True) else st1)
      in bind_err
           (if get_map m i01 = None \<or> get_map m j01 = None then
              bind_err (try_add m i01 i02 j01 j02) (\<lambda>r1.
              bind_err (try_add m i01 j02 j01 i02) (\<lambda>r2.
                Inr (push_opt r2 (push_opt r1 st2))))
            else Inr st2)
           (\<lambda>st3. Inr (if snd st3 then st3 else (fst st3 @ [m], snd st3))))"

text \<open>Lines 179-212: \<open>maps.pop()\<close> takes the last element, so the list is walked reversed.\<close>

fun absorb_all ::
  "nat \<Rightarrow> nat \<Rightarrow> nat \<Rightarrow> nat \<Rightarrow> SubGraphIsomorphism list \<Rightarrow> SubGraphIsomorphism list \<times> bool
     \<Rightarrow> error + SubGraphIsomorphism list \<times> bool" where
  "absorb_all i01 j01 i02 j02 [] st = Inr st"
| "absorb_all i01 j01 i02 j02 (m # popped) st =
     bind_err (absorb_one i01 j01 i02 j02 m st) (absorb_all i01 j01 i02 j02 popped)"

text \<open>Lines 171-223: one matched edge pair.\<close>

definition process_edge_pair ::
  "Scanner \<Rightarrow> Scanner \<Rightarrow> Edge \<times> Edge \<Rightarrow> SubGraphIsomorphism list \<Rightarrow> error + SubGraphIsomorphism list" where
  "process_edge_pair s01 s02 ee maps =
     (let i01 = edge_i (fst ee); j01 = edge_j (fst ee);
          i02 = edge_i (snd ee); j02 = edge_j (snd ee)
      in bind_err (absorb_all i01 j01 i02 j02 (rev maps) ([], False)) (\<lambda>st.
           if \<not> snd st then
             Inr ([add (add (new_SubGraphIsomorphism s01 s02) i01 i02) j01 j02]
                  @ fst st
                  @ [add (add (new_SubGraphIsomorphism s01 s02) i01 j02) j01 i02])
           else Inr (fst st)))"

fun process_edge_pairs ::
  "Scanner \<Rightarrow> Scanner \<Rightarrow> (Edge \<times> Edge) list \<Rightarrow> SubGraphIsomorphism list \<Rightarrow> error + SubGraphIsomorphism list" where
  "process_edge_pairs s01 s02 [] maps = Inr maps"
| "process_edge_pairs s01 s02 (ee # rest) maps =
     bind_err (process_edge_pair s01 s02 ee maps) (process_edge_pairs s01 s02 rest)"

text \<open>Lines 226-232: the first map of maximal size.\<close>

definition largest :: "Scanner \<Rightarrow> Scanner \<Rightarrow> SubGraphIsomorphism list \<Rightarrow> SubGraphIsomorphism" where
  "largest s01 s02 maps =
     (case maps of
        [] \<Rightarrow> new_SubGraphIsomorphism s01 s02
      | m0 # rest \<Rightarrow>
          foldl (\<lambda>largest_map m. if size_iso m > size_iso largest_map then m else largest_map)
            m0 rest)"

definition find_subgraph_isomorphism :: "Scanner \<Rightarrow> Scanner \<Rightarrow> error + SubGraphIsomorphism" where
  "find_subgraph_isomorphism s01 s02 =
     bind_err (matched_edges s01 s02) (\<lambda>pairs.
     bind_err (process_edge_pairs s01 s02 pairs []) (\<lambda>maps.
       Inr (largest s01 s02 maps)))"

subsection \<open>orient_02_to_01\<close>

fun vec_set :: "vec3 \<Rightarrow> nat \<Rightarrow> int \<Rightarrow> vec3" where
  "vec_set (a, b, c) k v = (if k = 0 then (v, b, c) else if k = 1 then (a, v, c) else (a, b, v))"

fun mat_set :: "mat3 \<Rightarrow> nat \<Rightarrow> nat \<Rightarrow> int \<Rightarrow> mat3" where
  "mat_set (r0, r1, r2) r c v =
     (if r = 0 then (vec_set r0 c v, r1, r2)
      else if r = 1 then (r0, vec_set r1 c v, r2)
      else (r0, r1, vec_set r2 c v))"

text \<open>
  Lines 251-259, 262-270 and 273-281 are one block per axis: \<open>d\<close> is scanner01's delta
  along the axis, \<open>o1\<close> and \<open>o2\<close> the deltas along the two other axes in the order the
  source compares them, \<open>r\<close> the row of the matrix, \<open>line\<close> the line of the block's assert.
\<close>

fun axis_block ::
  "nat \<Rightarrow> nat \<Rightarrow> int \<Rightarrow> int \<Rightarrow> int \<Rightarrow> vec3 \<Rightarrow> bool \<times> mat3 \<Rightarrow> error + bool \<times> mat3" where
  "axis_block r line d o1 o2 (dx02, dy02, dz02) (rotated, rotation) =
     (if \<not> rotated \<and> \<bar>d\<bar> > 0 \<and> \<bar>d\<bar> \<noteq> \<bar>o1\<bar> \<and> \<bar>d\<bar> \<noteq> \<bar>o2\<bar> then
        (if \<not> (\<bar>d\<bar> = \<bar>dx02\<bar> \<or> \<bar>d\<bar> = \<bar>dy02\<bar> \<or> \<bar>d\<bar> = \<bar>dz02\<bar>) then Inl (AssertionError line)
         else Inr (True,
                if \<bar>d\<bar> = \<bar>dx02\<bar> then mat_set rotation r 0 (dx02 div d)
                else if \<bar>d\<bar> = \<bar>dy02\<bar> then mat_set rotation r 1 (dy02 div d)
                else if \<bar>d\<bar> = \<bar>dz02\<bar> then mat_set rotation r 2 (dz02 div d)
                else rotation))
      else Inr (rotated, rotation))"

record rot_state =
  x_rotated :: bool
  y_rotated :: bool
  z_rotated :: bool
  rotation :: mat3

definition all_rotated :: "rot_state \<Rightarrow> bool" where
  "all_rotated st = (x_rotated st \<and> y_rotated st \<and> z_rotated st)"

text \<open>Lines 246-281: the body of the inner loop for the items \<open>(i01, i02)\<close>, \<open>(j01, j02)\<close>.\<close>

definition rotation_body ::
  "Scanner \<Rightarrow> Scanner \<Rightarrow> nat \<times> nat \<Rightarrow> nat \<times> nat \<Rightarrow> rot_state \<Rightarrow> error + rot_state" where
  "rotation_body s01 s02 it jt st =
     (if fst it \<noteq> snd it then
        bind_err (nth_err (scans s01) (fst it)) (\<lambda>p01.
        bind_err (nth_err (scans s01) (fst jt)) (\<lambda>q01.
        bind_err (nth_err (scans s02) (snd it)) (\<lambda>p02.
        bind_err (nth_err (scans s02) (snd jt)) (\<lambda>q02.
          (case delta p01 q01 of (dx01, dy01, dz01) \<Rightarrow>
             (let d02 = delta p02 q02
              in bind_err (axis_block 0 252 dx01 dy01 dz01 d02 (x_rotated st, rotation st)) (\<lambda>bx.
                 bind_err (axis_block 1 263 dy01 dx01 dz01 d02 (y_rotated st, snd bx)) (\<lambda>by.
                 bind_err (axis_block 2 274 dz01 dx01 dy01 d02 (z_rotated st, snd by)) (\<lambda>bz.
                   Inr \<lparr> x_rotated = fst bx, y_rotated = fst by, z_rotated = fst bz,
                         rotation = snd bz \<rparr>)))))))))
      else Inr st)"

text \<open>Lines 245-284: the inner loop, left by \<open>break\<close> once all three rows are set.\<close>

fun rotation_inner ::
  "Scanner \<Rightarrow> Scanner \<Rightarrow> nat \<times> nat \<Rightarrow> (nat \<times> nat) list \<Rightarrow> rot_state \<Rightarrow> error + rot_state" where
  "rotation_inner s01 s02 it [] st = Inr st"
| "rotation_inner s01 s02 it (jt # rest) st =
     bind_err (rotation_body s01 s02 it jt st) (\<lambda>st'.
       if all_rotated st' then Inr st' else rotation_inner s01 s02 it rest st')"

text \<open>Lines 244-286: the outer loop.\<close>

fun rotation_outer ::
  "Scanner \<Rightarrow> Scanner \<Rightarrow> (nat \<times> nat) list \<Rightarrow> (nat \<times> nat) list \<Rightarrow> rot_state \<Rightarrow> error + rot_state" where
  "rotation_outer s01 s02 items [] st = Inr st"
| "rotation_outer s01 s02 items (it # rest) st =
     bind_err (rotation_inner s01 s02 it items st) (\<lambda>st'.
       if all_rotated st' then Inr st' else rotation_outer s01 s02 items rest st')"

text \<open>Lines 241-287: the rotation, or the assertion error that stops the search.\<close>

definition find_rotation :: "Scanner \<Rightarrow> Scanner \<Rightarrow> (nat \<times> nat) list \<Rightarrow> error + mat3" where
  "find_rotation s01 s02 items =
     bind_err
       (rotation_outer s01 s02 items items
          \<lparr> x_rotated = False, y_rotated = False, z_rotated = False, rotation = zeros33 \<rparr>)
       (\<lambda>st. if all_rotated st then Inr (rotation st) else Inl (AssertionError 287))"

text \<open>
  Lines 290-297: the translation comes from the first item of the map.  With an empty map
  the source would store \<open>None\<close>; that line is never reached then, because the assert of
  line 287 fails on an empty map, and the model leaves the translation as it is.
\<close>

definition find_translation :: "Scanner \<Rightarrow> Scanner \<Rightarrow> (nat \<times> nat) list \<Rightarrow> error + vec3" where
  "find_translation s01 s02 items =
     (case items of
        [] \<Rightarrow> Inr (translation s02)
      | (i01, i02) # rest \<Rightarrow>
          bind_err (get_scan s02 i02) (\<lambda>scan02.
          bind_err (nth_err (scans s01) i01) (\<lambda>scan01.
            (case delta scan01 scan02 of (dx, dy, dz) \<Rightarrow> Inr (- dx, - dy, - dz)))))"

text \<open>Lines 299-303: the check loop.\<close>

fun check_items :: "Scanner \<Rightarrow> Scanner \<Rightarrow> (nat \<times> nat) list \<Rightarrow> error + unit" where
  "check_items s01 s02 [] = Inr ()"
| "check_items s01 s02 ((i01, i02) # rest) =
     bind_err (get_scan s02 i02) (\<lambda>scan02.
     bind_err (nth_err (scans s01) i01) (\<lambda>scan01.
       (case delta scan01 scan02 of (dx, dy, dz) \<Rightarrow>
          if dx = 0 \<and> dy = 0 \<and> dz = 0 then check_items s01 s02 rest
          else Inl (AssertionError 303))))"

text \<open>The function changes both scanners in place; the model returns both.\<close>

definition orient_02_to_01 ::
  "Scanner \<Rightarrow> Scanner \<Rightarrow> SubGraphIsomorphism \<Rightarrow> error + Scanner \<times> Scanner" where
  "orient_02_to_01 s01 s02 isomorphisim =
     (if index s01 \<noteq> index (scanner01 isomorphisim) then Inl (AssertionError 236)
      else if index s02 \<noteq> index (scanner02 isomorphisim) then Inl (AssertionError 237)
      else
        (let s01' = reset_translation (reset_rotation s01)
         in bind_err (find_rotation s01' s02 (map_d isomorphisim)) (\<lambda>rotation_matrix'.
            (let s02' = set_rotation s02 rotation_matrix'
             in bind_err (find_translation s01' s02' (map_d isomorphisim)) (\<lambda>translation'.
                (let s02'' = set_translation s02' translation'
                 in bind_err (check_items s01' s02'' (map_d isomorphisim)) (\<lambda>u.
                      Inr (s01', s02''))))))))"

subsection \<open>merge_02_into_01\<close>

text \<open>
  Lines 307-315: \<open>scanner02.get_scans()\<close> is evaluated once, \<open>scanner01.get_scans()\<close>
  again for every point, so a point appended earlier in the loop counts as a duplicate.
\<close>

fun merge_loop :: "Scanner \<Rightarrow> vec3 list \<Rightarrow> Scanner" where
  "merge_loop s01 [] = s01"
| "merge_loop s01 (scan02 # rest) =
     merge_loop (if scan02 \<in> set (get_scans s01) then s01 else add_scan s01 scan02) rest"

definition merge_02_into_01 :: "Scanner \<Rightarrow> Scanner \<Rightarrow> Scanner" where
  "merge_02_into_01 s01 s02 = build_graph (merge_loop s01 (get_scans s02))"

subsection \<open>The alignment driver\<close>

text \<open>
  The worklist holds references to the scanner objects of the list \<open>scanners\<close>; the model
  keeps the list as a store and the worklist as positions in it, so that the scanner
  changed by \<open>orient_02_to_01\<close> is the one read by the final distance scan.
\<close>

record driver_state =
  scanner00 :: Scanner
  scanners :: "Scanner list"
  unoriented_scanners :: "nat list"

text \<open>Lines 330-345: one scanner per record of the input, its graph built.\<close>

definition load_scanners :: "(nat \<times> vec3 list) list \<Rightarrow> Scanner list" where
  "load_scanners input =
     map (\<lambda>(idx, points). build_graph (foldl add_scan (new_Scanner idx) points)) input"

text \<open>Lines 348-349.\<close>

definition driver_init :: "Scanner list \<Rightarrow> error + driver_state" where
  "driver_init ss =
     (case ss of
        [] \<Rightarrow> Inl IndexError
      | s0 # rest \<Rightarrow>
          Inr \<lparr> scanner00 = s0, scanners = ss, unoriented_scanners = [1..<length ss] \<rparr>)"

text \<open>Lines 351-362: one iteration of the \<open>while\<close> loop, for a non-empty worklist.\<close>

definition driver_step :: "driver_state \<Rightarrow> error + driver_state" where
  "driver_step st =
     (case unoriented_scanners st of
        [] \<Rightarrow> Inr st
      | k # rest \<Rightarrow>
          (let scanner01' = scanners st ! k
           in bind_err (find_subgraph_isomorphism (scanner00 st) scanner01') (\<lambda>isomorphism.
                if size_iso isomorphism \<ge> 12 then
                  (let expected_size =
                         int (size_scanner (scanner00 st)) + int (size_scanner scanner01')
                           - int (size_iso isomorphism)
                   in bind_err (orient_02_to_01 (scanner00 st) scanner01' isomorphism) (\<lambda>(a, b).
                        (let a' = merge_02_into_01 a b
                         in if int (size_scanner a') = expected_size
                            then Inr \<lparr> scanner00 = a', scanners = (scanners st)[k := b],
                                       unoriented_scanners = rest \<rparr>
                            else Inl (AssertionError 357))))
                else Inr (st\<lparr>unoriented_scanners := rest @ [k]\<rparr>))))"

text \<open>The first \<open>n\<close> iterations of the loop of lines 350-362.\<close>

fun driver_steps :: "nat \<Rightarrow> driver_state \<Rightarrow> error + driver_state" where
  "driver_steps 0 st = Inr st"
| "driver_steps (Suc n) st =
     (if unoriented_scanners st = [] then Inr st
      else bind_err (driver_step st) (driver_steps n))"

text \<open>Lines 368-375: the largest distance between two scanner origins.\<close>

definition max_distance :: "Scanner list \<Rightarrow> int" where
  "max_distance ss =
     foldl (\<lambda>m (i01, i02).
              if i01 = i02 then m
              else (let d = manhatan_distance (get_origin (ss ! i01)) (get_origin (ss ! i02))
                    in if d > m then d else m))
       0 (concat (map (\<lambda>i01. map (\<lambda>i02. (i01, i02)) [0..<length ss]) [0..<length ss]))"

subsection \<open>The 24 rotations\<close>

text \<open>
  The signed permutation matrices of determinant 1, listed; \<open>signed_permutation\<close> and
  \<open>det3\<close> say what they are, and \<open>rotations24_iff\<close> below that the list is complete.
\<close>

fun det3 :: "mat3 \<Rightarrow> int" where
  "det3 ((a, b, c), (d, e, f), (g, h, i)) =
     a * (e * i - f * h) - b * (d * i - f * g) + c * (d * h - e * g)"

definition rotations24 :: "mat3 list" where
  "rotations24 = [
      ((1, 0, 0), (0, 1, 0), (0, 0, 1)), ((1, 0, 0), (0, - 1, 0), (0, 0, - 1)),
      ((- 1, 0, 0), (0, 1, 0), (0, 0, - 1)), ((- 1, 0, 0), (0, - 1, 0), (0, 0, 1)),
      ((1, 0, 0), (0, 0, 1), (0, - 1, 0)), ((1, 0, 0), (0, 0, - 1), (0, 1, 0)),
      ((- 1, 0, 0), (0, 0, 1), (0, 1, 0)), ((- 1, 0, 0), (0, 0, - 1), (0, - 1, 0)),
      ((0, 1, 0), (1, 0, 0), (0, 0, - 1)), ((0, 1, 0), (- 1, 0, 0), (0, 0, 1)),
      ((0, - 1, 0), (1, 0, 0), (0, 0, 1)), ((0, - 1, 0), (- 1, 0, 0), (0, 0, - 1)),
      ((0, 1, 0), (0, 0, 1), (1, 0, 0)), ((0, 1, 0), (0, 0, - 1), (- 1, 0, 0)),
      ((0, - 1, 0), (0, 0, 1), (- 1, 0, 0)), ((0, - 1, 0), (0, 0, - 1), (1, 0, 0)),
      ((0, 0, 1), (1, 0, 0), (0, 1, 0)), ((0, 0, 1), (- 1, 0, 0), (0, - 1, 0)),
      ((0, 0, - 1), (1, 0, 0), (0, - 1, 0)), ((0, 0, - 1), (- 1, 0, 0), (0, 1, 0)),
      ((0, 0, 1), (0, 1, 0), (- 1, 0, 0)), ((0, 0, 1), (0, - 1, 0), (1, 0, 0)),
      ((0, 0, - 1), (0, 1, 0), (1, 0, 0)), ((0, 0, - 1), (0, - 1, 0), (- 1, 0, 0))]"

fun one_nonzero :: "vec3 \<Rightarrow> bool" where
  "one_nonzero (a, b, c) =
     ((a = 0 \<or> \<bar>a\<bar> = 1) \<and> (b = 0 \<or> \<bar>b\<bar> = 1) \<and> (c = 0 \<or> \<bar>c\<bar> = 1) \<and>
      \<bar>a\<bar> + \<bar>b\<bar> + \<bar>c\<bar> = 1)"

fun signed_permutation :: "mat3 \<Rightarrow> bool" where
  "signed_permutation ((a, b, c), (d, e, f), (g, h, i)) =
     (one_nonzero (a, b, c) \<and> one_nonzero (d, e, f) \<and> one_nonzero (g, h, i) \<and>
      one_nonzero (a, d, g) \<and> one_nonzero (b, e, h) \<and> one_nonzero (c, f, i))"

subsection \<open>Reference descriptions and example scanners\<close>

text \<open>
  What the merge-join pairs an edge of scanner01 with: the first edge of scanner02's list
  that has the same weight, if there is one.  This is a description to compare
  \<open>match_loop\<close> with, not a translation of source lines.
\<close>

definition first_with_weight :: "Edge list \<Rightarrow> Edge \<Rightarrow> (Edge \<times> Edge) list" where
  "first_with_weight es02 edge01 =
     (case find (\<lambda>edge02. weight edge02 = weight edge01) es02 of
        None \<Rightarrow> [] | Some edge02 \<Rightarrow> [(edge01, edge02)])"

text \<open>A scanner with the points of the list, added in order, and its graph built.\<close>

definition scanner_of :: "nat \<Rightarrow> vec3 list \<Rightarrow> Scanner" where
  "scanner_of idx points = build_graph (foldl add_scan (new_Scanner idx) points)"

definition segment_scanner :: Scanner where
  "segment_scanner = scanner_of 0 [(0, 0, 0), (1, 0, 0)]"

definition corner_scanner :: Scanner where
  "corner_scanner = scanner_of 1 [(0, 0, 0), (0, 0, 1), (0, 1, 0)]"

text \<open>
  Two scanners whose common points differ by the translation \<open>(5, 5, 5)\<close>, and the
  correspondence map between them.
\<close>

definition ramp_scanner01 :: Scanner where
  "ramp_scanner01 = scanner_of 0 [(0, 0, 0), (1, 2, 3)]"

definition ramp_scanner02 :: Scanner where
  "ramp_scanner02 = scanner_of 1 [(- 9, - 9, - 9), (5, 5, 5), (6, 7, 8)]"

definition ramp_isomorphism :: SubGraphIsomorphism where
  "ramp_isomorphism =
     \<lparr> scanner01 = ramp_scanner01, scanner02 = ramp_scanner02, map_d = [(0, 1), (1, 2)] \<rparr>"

text \<open>
  The spec's words for a scanner whose derived fields are current, and for a consistent
  correspondence map: at every two entries of the map the two distance graphs hold the
  same value.
\<close>

definition up_to_date :: "Scanner \<Rightarrow> bool" where
  "up_to_date s \<longleftrightarrow>
     graph s = Some (graph_of (scans s)) \<and>
     unique_edges_by_weight s = Some (sort_key weight (edges_of (scans s)))"

definition consistent :: "SubGraphIsomorphism \<Rightarrow> bool" where
  "consistent m \<longleftrightarrow>
     (\<forall>(i1, i2)\<in>set (map_d m). \<forall>(j1, j2)\<in>set (map_d m).
        (case graph_at (scanner01 m) i1 j1 of
           Inl e \<Rightarrow> False
         | Inr w1 \<Rightarrow> graph_at (scanner02 m) i2 j2 = Inr w1))"

text \<open>
  The invariant of the matcher's candidate maps: a map between the two scanners whose
  entries are point indices of the scanners and which is consistent.
\<close>

definition good_map :: "Scanner \<Rightarrow> Scanner \<Rightarrow> SubGraphIsomorphism \<Rightarrow> bool" where
  "good_map s01 s02 m \<longleftrightarrow>
     scanner01 m = s01 \<and> scanner02 m = s02 \<and>
     (\<forall>(i1, i2)\<in>set (map_d m). i1 < length (scans s01) \<and> i2 < length (scans s02)) \<and>
     consistent m"

text \<open>The reference scanner's transform: identity rotation, zero translation.\<close>

definition reference_frame :: "Scanner \<Rightarrow> bool" where
  "reference_frame s \<longleftrightarrow> rotation_matrix s = identity3 \<and> translation s = zeros3"

section \<open>Properties\<close>

lemma bind_err_simps [simp]:
  "bind_err (Inl e) f = Inl e"
  "bind_err (Inr x) f = f x"
  by (simp_all add: bind_err_def)

lemma bind_err_eq_Inr:
  "bind_err m f = Inr y \<longleftrightarrow> (\<exists>x. m = Inr x \<and> f x = Inr y)"
  by (cases m) simp_all

lemma nth_err_eq_Inr [simp]: "nth_err xs n = Inr x \<longleftrightarrow> n < length xs \<and> xs ! n = x"
  by (simp add: nth_err_def)

lemma nth_err_in_range: "n < length xs \<Longrightarrow> nth_err xs n = Inr (xs ! n)"
  by (simp add: nth_err_def)

subsection \<open>Rotations and distances\<close>

lemma rotations24_length: "length rotations24 = 24"
  by (simp add: rotations24_def)

lemma rotations24_signed_permutation:
  "r \<in> set rotations24 \<Longrightarrow> signed_permutation r \<and> det3 r = 1"
  unfolding rotations24_def by (elim disjE | simp)+

lemma one_nonzero_cases:
  "one_nonzero (a, b, c) \<Longrightarrow>
     (a = 1 \<and> b = 0 \<and> c = 0) \<or> (a = -1 \<and> b = 0 \<and> c = 0) \<or>
     (a = 0 \<and> b = 1 \<and> c = 0) \<or> (a = 0 \<and> b = -1 \<and> c = 0) \<or>
     (a = 0 \<and> b = 0 \<and> c = 1) \<or> (a = 0 \<and> b = 0 \<and> c = -1)"
  by (auto simp: abs_if split: if_splits)

lemma signed_permutation_rotations24:
  assumes "signed_permutation ((a, b, c), (d, e, f), (g, h, i))"
    and "det3 ((a, b, c), (d, e, f), (g, h, i)) = 1"
  shows "((a, b, c), (d, e, f), (g, h, i)) \<in> set rotations24"
proof -
  from assms(1) have r: "one_nonzero (a, b, c)" "one_nonzero (d, e, f)" "one_nonzero (g, h, i)"
    by simp_all
  show ?thesis
    using one_nonzero_cases[OF r(1)] one_nonzero_cases[OF r(2)] one_nonzero_cases[OF r(3)] assms(2)
    unfolding rotations24_def
    by (elim disjE conjE) simp_all
qed

lemma rotations24_iff: "r \<in> set rotations24 \<longleftrightarrow> signed_permutation r \<and> det3 r = 1"
proof
  assume "r \<in> set rotations24"
  then show "signed_permutation r \<and> det3 r = 1" by (rule rotations24_signed_permutation)
next
  assume a: "signed_permutation r \<and> det3 r = 1"
  obtain a b c d e f g h i where r: "r = ((a, b, c), (d, e, f), (g, h, i))"
    by (metis prod_cases3)
  from a show "r \<in> set rotations24"
    unfolding r using signed_permutation_rotations24 by blast
qed

lemma rotation_keeps_squared_distance:
  assumes "r \<in> set rotations24"
  shows "squared_distance (vec_add (mat_vec r (px, py, pz)) (tx, ty, tz))
           (vec_add (mat_vec r (qx, qy, qz)) (tx, ty, tz))
         = squared_distance (px, py, pz) (qx, qy, qz)"
  using assms unfolding rotations24_def
  by (simp only: set_simps insert_iff empty_iff, elim disjE)
     (simp_all add: power2_eq_square algebra_simps)

lemma transform_keeps_squared_distance:
  assumes "rotation_matrix s \<in> set rotations24"
  shows "squared_distance (transform s p) (transform s q) = squared_distance p q"
proof -
  obtain px py pz where p: "p = (px, py, pz)" by (metis prod_cases3)
  obtain qx qy qz where q: "q = (qx, qy, qz)" by (metis prod_cases3)
  obtain tx ty tz where t: "translation s = (tx, ty, tz)" by (metis prod_cases3)
  show ?thesis
    unfolding transform_def p q t by (rule rotation_keeps_squared_distance [OF assms])
qed

text \<open>
  C4.  For a scanner whose rotation is one of the 24 signed permutation matrices of
  determinant 1, with any translation and any points, \<open>get_scan\<close> succeeds at every
  index in range and the squared distance between two transformed points is the squared
  distance between the two stored points.
\<close>

theorem C4_distance_invariance:
  assumes "rotation_matrix s \<in> set rotations24"
    and "a < size_scanner s" and "b < size_scanner s"
  shows "\<exists>p q. get_scan s a = Inr p \<and> get_scan s b = Inr q \<and>
           squared_distance p q = squared_distance (scans s ! a) (scans s ! b)"
  using assms transform_keeps_squared_distance [OF assms(1)]
  by (simp add: get_scan_def size_scanner_def nth_err_def)

theorem C4_distance_invariance_witness:
  "((0, 0, - 1), (0, 1, 0), (1, 0, 0)) \<in> set rotations24 \<and>
   (\<exists>p q. get_scan (set_translation (set_rotation
                (add_scan (add_scan (new_Scanner 0) (1, 2, 3)) (4, 6, 9))
                ((0, 0, - 1), (0, 1, 0), (1, 0, 0))) (5, 0, - 3)) 0 = Inr p \<and>
          get_scan (set_translation (set_rotation
                (add_scan (add_scan (new_Scanner 0) (1, 2, 3)) (4, 6, 9))
                ((0, 0, - 1), (0, 1, 0), (1, 0, 0))) (5, 0, - 3)) 1 = Inr q \<and>
          squared_distance p q = 61)"
proof -
  let ?s = "set_translation (set_rotation
                (add_scan (add_scan (new_Scanner 0) (1, 2, 3)) (4, 6, 9))
                ((0, 0, - 1), (0, 1, 0), (1, 0, 0))) (5, 0, - 3)"
  have r: "rotation_matrix ?s \<in> set rotations24"
    by (simp add: set_translation_def set_rotation_def rotations24_def)
  have n: "0 < size_scanner ?s" "1 < size_scanner ?s"
    by (simp_all add: size_scanner_def set_translation_def set_rotation_def add_scan_def
          new_Scanner_def)
  have "scans ?s = [(1, 2, 3), (4, 6, 9)]"
    by (simp add: set_translation_def set_rotation_def add_scan_def new_Scanner_def)
  with C4_distance_invariance [OF r n] show ?thesis
    by (simp add: rotations24_def)
qed

subsection \<open>Scanner operations and the points sequence\<close>

lemma scans_build_graph: "scans (build_graph s) = sort (scans s)"
  by (simp add: build_graph_def Let_def)

lemma edges_build_graph:
  "unique_edges_by_weight (build_graph s) = Some (sort_key weight (edges_of (sort (scans s))))"
  by (simp add: build_graph_def Let_def)

lemma graph_build_graph: "graph (build_graph s) = Some (graph_of (sort (scans s)))"
  by (simp add: build_graph_def Let_def)

text \<open>
  C7 as stated fails: \<open>build_graph\<close> sorts the points (line 97), so two points added
  in descending order change places.
\<close>

theorem C7_counterexample:
  "scans (build_graph (add_scan (add_scan (new_Scanner 0) (1, 0, 0)) (0, 0, 0)))
   \<noteq> scans (add_scan (add_scan (new_Scanner 0) (1, 0, 0)) (0, 0, 0))"
  by (simp add: scans_build_graph add_scan_def new_Scanner_def)

text \<open>
  C7, amended.  Setting or resetting the rotation or the translation leaves the points
  sequence as it is and \<open>add_scan\<close> appends one point; \<open>build_graph\<close> replaces the
  sequence by its sorted permutation, so the content (as a multiset) is kept and the
  order is kept exactly when the sequence was sorted already.
\<close>

theorem C7_points:
  "scans (set_rotation s r) = scans s \<and>
   scans (set_translation s t) = scans s \<and>
   scans (reset_rotation s) = scans s \<and>
   scans (reset_translation s) = scans s \<and>
   scans (add_scan s p) = scans s @ [p] \<and>
   scans (build_graph s) = sort (scans s) \<and>
   mset (scans (build_graph s)) = mset (scans s) \<and>
   (scans (build_graph s) = scans s \<longleftrightarrow> sorted (scans s))"
proof -
  have "sort (scans s) = scans s \<longleftrightarrow> sorted (scans s)"
    by (metis sorted_sort sorted_sort_id)
  then show ?thesis
    by (simp add: set_rotation_def set_translation_def reset_rotation_def reset_translation_def
        add_scan_def scans_build_graph)
qed

theorem C7_points_witness:
  "sorted (scans (add_scan (add_scan (new_Scanner 0) (0, 0, 0)) (1, 0, 0))) \<and>
   scans (build_graph (add_scan (add_scan (new_Scanner 0) (0, 0, 0)) (1, 0, 0)))
     = [(0, 0, 0), (1, 0, 0)]"
proof -
  have s: "sorted (scans (add_scan (add_scan (new_Scanner 0) (0, 0, 0)) (1, 0, 0)))"
    by (simp add: add_scan_def new_Scanner_def)
  with C7_points [of "add_scan (add_scan (new_Scanner 0) (0, 0, 0)) (1, 0, 0)"]
  have "scans (build_graph (add_scan (add_scan (new_Scanner 0) (0, 0, 0)) (1, 0, 0)))
          = scans (add_scan (add_scan (new_Scanner 0) (0, 0, 0)) (1, 0, 0))"
    by blast
  with s show ?thesis by (simp add: add_scan_def new_Scanner_def)
qed

subsection \<open>Squared distances and the edge list\<close>

lemma squared_distance_self [simp]: "squared_distance p p = 0"
  by (cases p) simp

lemma squared_distance_nonneg: "0 \<le> squared_distance p q"
  by (cases p; cases q) simp

lemma squared_distance_sym: "squared_distance p q = squared_distance q p"
  by (cases p; cases q) (simp add: power2_commute)

lemma squared_distance_eq_0_iff [simp]: "squared_distance p q = 0 \<longleftrightarrow> p = q"
proof (cases p; cases q)
  fix a b c d e f assume "p = (a, b, c)" "q = (d, e, f)"
  then show ?thesis
    by (auto simp: sum_power2_eq_zero_iff add_nonneg_eq_0_iff)
qed

lemma squared_distance_pos_iff: "0 < squared_distance p q \<longleftrightarrow> p \<noteq> q"
  using squared_distance_nonneg [of p q] squared_distance_eq_0_iff [of p q] by linarith

declare squared_distance.simps [simp del]

lemma edges_of_Nil_iff: "edges_of ps = [] \<longleftrightarrow> card (set ps) < 2"
proof -
  have "edges_of ps = [] \<longleftrightarrow>
          (\<forall>a\<in>{0..<length ps}. \<forall>b\<in>{a..<length ps}. \<not> 0 < squared_distance (ps ! a) (ps ! b))"
    by (auto simp add: edges_of_def Let_def)
  also have "\<dots> \<longleftrightarrow> (\<forall>a<length ps. \<forall>b<length ps. a \<le> b \<longrightarrow> ps ! a = ps ! b)"
    by (auto simp add: squared_distance_pos_iff)
  also have "\<dots> \<longleftrightarrow> (\<forall>x\<in>set ps. \<forall>y\<in>set ps. x = y)"
  proof
    assume h: "\<forall>a<length ps. \<forall>b<length ps. a \<le> b \<longrightarrow> ps ! a = ps ! b"
    show "\<forall>x\<in>set ps. \<forall>y\<in>set ps. x = y"
    proof (intro ballI)
      fix x y assume "x \<in> set ps" "y \<in> set ps"
      then obtain a b where ab: "a < length ps" "ps ! a = x" "b < length ps" "ps ! b = y"
        by (auto simp: in_set_conv_nth)
      show "x = y"
      proof (cases "a \<le> b")
        case True with h ab show ?thesis by blast
      next
        case False then have "b \<le> a" by simp
        with h ab show ?thesis by metis
      qed
    qed
  next
    assume "\<forall>x\<in>set ps. \<forall>y\<in>set ps. x = y"
    then show "\<forall>a<length ps. \<forall>b<length ps. a \<le> b \<longrightarrow> ps ! a = ps ! b"
      by (meson nth_mem)
  qed
  also have "\<dots> \<longleftrightarrow> card (set ps) \<le> Suc 0"
    by (simp add: card_le_Suc0_iff_eq)
  finally show ?thesis by auto
qed

lemma matched_edges_empty:
  "unique_edges_by_weight s02 = Some [] \<Longrightarrow> matched_edges s01 s02 = Inl IndexError"
  by (simp add: matched_edges_def)

text \<open>
  C8.  When scanner02's edge list is empty, \<open>find_subgraph_isomorphism\<close> raises
  \<open>IndexError\<close> (line 162 reads position 0) instead of returning an empty map; and the
  edge list built by \<open>build_graph\<close> is empty whenever the scanner holds fewer than two
  distinct points.
\<close>

theorem C8_empty_edge_list:
  "(unique_edges_by_weight s02 = Some [] \<longrightarrow>
      find_subgraph_isomorphism s01 s02 = Inl IndexError) \<and>
   (card (set (scans s)) < 2 \<longrightarrow>
      unique_edges_by_weight (build_graph s) = Some [] \<and>
      find_subgraph_isomorphism s01 (build_graph s) = Inl IndexError)"
proof -
  have a: "find_subgraph_isomorphism s01 x = Inl IndexError"
    if "unique_edges_by_weight x = Some []" for x
    using that by (simp add: find_subgraph_isomorphism_def matched_edges_empty)
  have b: "unique_edges_by_weight (build_graph s) = Some []" if "card (set (scans s)) < 2"
    using that edges_of_Nil_iff [of "sort (scans s)"] by (simp add: edges_build_graph)
  from a b show ?thesis by blast
qed

theorem C8_empty_edge_list_witness:
  "unique_edges_by_weight (build_graph (add_scan (new_Scanner 1) (1, 2, 3))) = Some [] \<and>
   card (set (scans (add_scan (new_Scanner 1) (1, 2, 3)))) < 2 \<and>
   find_subgraph_isomorphism (build_graph (add_scan (add_scan (new_Scanner 0) (0, 0, 0)) (1, 0, 0)))
     (build_graph (add_scan (new_Scanner 1) (1, 2, 3))) = Inl IndexError"
proof -
  have c: "card (set (scans (add_scan (new_Scanner 1) (1, 2, 3)))) < 2"
    by (simp add: add_scan_def new_Scanner_def)
  from c C8_empty_edge_list
    [of "build_graph (add_scan (new_Scanner 1) (1, 2, 3))"
        "build_graph (add_scan (add_scan (new_Scanner 0) (0, 0, 0)) (1, 0, 0))"
        "add_scan (new_Scanner 1) (1, 2, 3)"]
  show ?thesis by blast
qed

subsection \<open>The merge-join of the matcher\<close>

lemma advance_spec:
  assumes "sorted (map weight es)" "k < length es" "\<forall>i<k. weight (es ! i) < w"
  shows "advance es k w < length es \<and> k \<le> advance es k w \<and>
         (\<forall>i<advance es k w. weight (es ! i) < w) \<and>
         (w \<le> weight (es ! advance es k w) \<or> advance es k w + 1 = length es)"
  using assms
proof (induction es k w rule: advance.induct)
  case (1 es02 index02 w)
  show ?case
  proof (cases "weight (es02 ! index02) < w \<and> index02 + 1 < length es02")
    case True
    have "\<forall>i<index02 + 1. weight (es02 ! i) < w"
      using "1.prems"(3) True by (auto simp: less_Suc_eq)
    with "1.IH" [OF True "1.prems"(1)] True
    have "advance es02 (index02 + 1) w < length es02 \<and>
          index02 + 1 \<le> advance es02 (index02 + 1) w \<and>
          (\<forall>i<advance es02 (index02 + 1) w. weight (es02 ! i) < w) \<and>
          (w \<le> weight (es02 ! advance es02 (index02 + 1) w) \<or>
             advance es02 (index02 + 1) w + 1 = length es02)"
      by blast
    moreover have "advance es02 index02 w = advance es02 (index02 + 1) w"
      using True advance.simps [of es02 index02 w] by simp
    ultimately show ?thesis by auto
  next
    case False
    then have e: "advance es02 index02 w = index02"
      using advance.simps [of es02 index02 w] by auto
    from False "1.prems" show ?thesis unfolding e by auto
  qed
qed

lemma find_at_first:
  assumes "sorted (map weight es)" "k < length es" "\<forall>i<k. weight (es ! i) < w"
    "w \<le> weight (es ! k) \<or> k + 1 = length es"
  shows "find (\<lambda>e. weight e = w) es = (if weight (es ! k) = w then Some (es ! k) else None)"
proof (cases "weight (es ! k) = w")
  case True
  have "find (\<lambda>e. weight e = w) es = Some (es ! k)"
    unfolding find_Some_iff using assms(2,3) True by (intro exI [of _ k]) auto
  with True show ?thesis by simp
next
  case False
  have "weight e \<noteq> w" if "e \<in> set es" for e
  proof -
    from that obtain i where i: "i < length es" "es ! i = e" by (auto simp: in_set_conv_nth)
    show ?thesis
    proof (cases "i < k")
      case True with assms(3) i show ?thesis by auto
    next
      case nk: False
      show ?thesis
      proof (cases "w \<le> weight (es ! k)")
        case True
        with False have "w < weight (es ! k)" by simp
        moreover have "weight (es ! k) \<le> weight (es ! i)"
          using assms(1) nk i(1) assms(2)
          by (metis length_map linorder_not_less nth_map sorted_nth_mono)
        ultimately show ?thesis using i by auto
      next
        case False
        with assms(4) have "k + 1 = length es" by simp
        with nk i have "i = k" by simp
        with \<open>weight (es ! k) \<noteq> w\<close> i show ?thesis by simp
      qed
    qed
  qed
  then have "find (\<lambda>e. weight e = w) es = None" by (simp add: find_None_iff)
  with False show ?thesis by simp
qed

lemma match_loop_spec:
  assumes "sorted (map weight es02)"
  shows "sorted (map weight es01) \<Longrightarrow> k < length es02 \<Longrightarrow>
         (\<forall>e\<in>set es01. \<forall>i<k. weight (es02 ! i) < weight e) \<Longrightarrow>
         match_loop es01 es02 k = concat (map (first_with_weight es02) es01)"
proof (induction es01 arbitrary: k)
  case Nil
  then show ?case by simp
next
  case (Cons e es01)
  let ?k = "advance es02 k (weight e)"
  have b: "\<forall>i<k. weight (es02 ! i) < weight e" using Cons.prems(3) by simp
  note sp = advance_spec [OF assms Cons.prems(2) b]
  have f: "find (\<lambda>x. weight x = weight e) es02
             = (if weight (es02 ! ?k) = weight e then Some (es02 ! ?k) else None)"
    using sp by (intro find_at_first [OF assms]) auto
  have "\<forall>e'\<in>set es01. \<forall>i<?k. weight (es02 ! i) < weight e'"
    using sp Cons.prems(1) by fastforce
  with Cons.IH [of ?k] Cons.prems(1) sp
  have "match_loop es01 es02 ?k = concat (map (first_with_weight es02) es01)" by simp
  moreover have "first_with_weight es02 e
      = (if weight e = weight (es02 ! ?k) then [(e, es02 ! ?k)] else [])"
    using f by (auto simp: first_with_weight_def)
  ultimately show ?case
    by (simp add: Let_def)
qed

lemma segment_scanner_edges: "unique_edges_by_weight segment_scanner = Some [Edge 0 1 1]"
  by code_simp

lemma corner_scanner_edges:
  "unique_edges_by_weight corner_scanner = Some [Edge 0 1 1, Edge 0 2 1, Edge 1 2 2]"
  by code_simp

text \<open>
  C5 as stated fails: the corner scanner has two edges of weight 1, the segment scanner
  one; the pair of \<open>Edge 0 1 1\<close> with \<open>Edge 0 2 1\<close> has equal weights and is not
  enumerated.
\<close>

theorem C5_counterexample:
  "unique_edges_by_weight segment_scanner = Some [Edge 0 1 1] \<and>
   unique_edges_by_weight corner_scanner = Some [Edge 0 1 1, Edge 0 2 1, Edge 1 2 2] \<and>
   matched_edges segment_scanner corner_scanner = Inr [(Edge 0 1 1, Edge 0 1 1)]"
  by code_simp

text \<open>
  C5, amended.  With both edge lists sorted ascending by weight (and scanner02's list
  not empty), the first phase enumerates, for each edge of scanner01 in list order, the
  pair of that edge with the first edge of scanner02's list that has the same weight, when
  there is one, and nothing else: every pair has equal weights, no edge of scanner01
  occurs in two pairs, and a later edge of scanner02 with a weight already seen is never
  paired.
\<close>

theorem C5_merge_join:
  assumes "unique_edges_by_weight s01 = Some es01" and "unique_edges_by_weight s02 = Some es02"
    and "sorted (map weight es01)" and "sorted (map weight es02)" and "es02 \<noteq> []"
  shows "matched_edges s01 s02 = Inr (concat (map (first_with_weight es02) es01))"
  using assms match_loop_spec [OF assms(4) assms(3), of 0]
  by (simp add: matched_edges_def)

theorem C5_merge_join_witness:
  "sorted (map weight [Edge 0 1 1, Edge 0 2 1, Edge 1 2 2]) \<and>
   sorted (map weight [Edge 0 1 1]) \<and> [Edge 0 1 1] \<noteq> [] \<and>
   matched_edges corner_scanner segment_scanner
     = Inr [(Edge 0 1 1, Edge 0 1 1), (Edge 0 2 1, Edge 0 1 1)]"
proof -
  have s: "sorted (map weight [Edge 0 1 1, Edge 0 2 1, Edge 1 2 2])"
    "sorted (map weight [Edge 0 1 1])" "[Edge 0 1 1] \<noteq> []"
    by simp_all
  from C5_merge_join [OF corner_scanner_edges segment_scanner_edges s] s show ?thesis
    by (simp add: first_with_weight_def)
qed

subsection \<open>The translation of scanner02 at entry\<close>

lemma find_rotation_Nil: "find_rotation s01 s02 [] = Inl (AssertionError 287)"
  by (simp add: find_rotation_def all_rotated_def)

lemma scans_reset [simp]:
  "scans (reset_translation s) = scans s" "scans (reset_rotation s) = scans s"
  "scans (set_rotation s r) = scans s" "scans (set_translation s t) = scans s"
  by (simp_all add: reset_translation_def reset_rotation_def set_rotation_def set_translation_def)

lemma find_translation_first:
  assumes "i01 < length (scans s01)" "i02 < length (scans s02)"
  shows "find_translation s01 s02 ((i01, i02) # rest)
         = Inr (case delta (scans s01 ! i01) (transform s02 (scans s02 ! i02)) of
                  (dx, dy, dz) \<Rightarrow> (- dx, - dy, - dz))"
  using assms by (simp add: find_translation_def get_scan_def nth_err_def split: prod.splits)

lemma check_first:
  assumes "i01 < length (scans s01)" "i02 < length (scans s02)"
    and "delta (scans s01 ! i01) (transform s02 (scans s02 ! i02)) \<noteq> (0, 0, 0)"
  shows "check_items s01 s02 ((i01, i02) # rest) = Inl (AssertionError 303)"
  using assms by (auto simp add: get_scan_def nth_err_def split: prod.splits)

lemma transform_retranslated:
  "transform (set_translation (set_rotation s r)
      (case delta a (transform (set_rotation s r) b) of (dx, dy, dz) \<Rightarrow> (- dx, - dy, - dz))) b
   = (case translation s of (tx, ty, tz) \<Rightarrow> vec_add a (- tx, - ty, - tz))"
  by (cases a; cases b; cases r; cases "translation s")
     (auto simp: transform_def set_translation_def set_rotation_def split: prod.splits)

text \<open>
  C9.  Let the rotation search succeed and let the first item of the map hold point
  indices of the two scanners.  If scanner02 enters with a translation other than zero,
  the check of line 303 fails: the translation computed through \<open>get_scan\<close> already
  contains the old one.  If it enters with the zero translation, the recovered
  translation maps the rotated point of scanner02 onto the point of scanner01.
\<close>

theorem C9_translation_at_entry:
  assumes "index s01 = index (scanner01 ism)" and "index s02 = index (scanner02 ism)"
    and "find_rotation (reset_translation (reset_rotation s01)) s02 (map_d ism) = Inr r"
    and "map_d ism = (i01, i02) # rest"
    and "i01 < length (scans s01)" and "i02 < length (scans s02)"
  shows "(translation s02 \<noteq> zeros3 \<longrightarrow>
            orient_02_to_01 s01 s02 ism = Inl (AssertionError 303)) \<and>
         (translation s02 = zeros3 \<longrightarrow>
            (\<exists>t. find_translation (reset_translation (reset_rotation s01)) (set_rotation s02 r)
                   (map_d ism) = Inr t \<and>
                 get_scan (set_translation (set_rotation s02 r) t) i02 = Inr (scans s01 ! i01)))"
proof -
  let ?s01 = "reset_translation (reset_rotation s01)"
  let ?s02 = "set_rotation s02 r"
  let ?t = "case delta (scans s01 ! i01) (transform ?s02 (scans s02 ! i02)) of
              (dx, dy, dz) \<Rightarrow> (- dx, - dy, - dz)"
  have ft: "find_translation ?s01 ?s02 (map_d ism) = Inr ?t"
    using assms(4-6) find_translation_first [of i01 ?s01 i02 ?s02 rest] by simp
  have tr: "transform (set_translation ?s02 ?t) (scans s02 ! i02)
            = (case translation s02 of (tx, ty, tz) \<Rightarrow> vec_add (scans s01 ! i01) (- tx, - ty, - tz))"
    by (rule transform_retranslated)
  have a: "orient_02_to_01 s01 s02 ism = Inl (AssertionError 303)" if "translation s02 \<noteq> zeros3"
  proof -
    have "delta (scans ?s01 ! i01) (transform (set_translation ?s02 ?t) (scans (set_translation ?s02 ?t) ! i02))
          \<noteq> (0, 0, 0)"
      using that unfolding scans_reset tr
      by (cases "translation s02"; cases "scans s01 ! i01") (auto simp: zeros3_def)
    then have "check_items ?s01 (set_translation ?s02 ?t) (map_d ism) = Inl (AssertionError 303)"
      unfolding assms(4) using assms(5,6) by (intro check_first) simp_all
    then show ?thesis
      using assms(1-3) ft by (simp add: orient_02_to_01_def Let_def)
  qed
  have b: "get_scan (set_translation ?s02 ?t) i02 = Inr (scans s01 ! i01)" if "translation s02 = zeros3"
    using that assms(6) tr
    by (cases "scans s01 ! i01") (simp add: get_scan_def nth_err_def zeros3_def)
  from a b ft show ?thesis by blast
qed

lemma ramp_rotation:
  "find_rotation (reset_translation (reset_rotation ramp_scanner01))
     (set_translation ramp_scanner02 (1, 0, 0)) (map_d ramp_isomorphism) = Inr identity3"
  "find_rotation (reset_translation (reset_rotation ramp_scanner01))
     (set_translation ramp_scanner02 (0, 0, 0)) (map_d ramp_isomorphism) = Inr identity3"
  by code_simp+

theorem C9_translation_at_entry_witness:
  "translation (set_translation ramp_scanner02 (1, 0, 0)) \<noteq> zeros3 \<and>
   orient_02_to_01 ramp_scanner01 (set_translation ramp_scanner02 (1, 0, 0)) ramp_isomorphism
     = Inl (AssertionError 303) \<and>
   translation (set_translation ramp_scanner02 (0, 0, 0)) = zeros3 \<and>
   get_scan (set_translation (set_rotation (set_translation ramp_scanner02 (0, 0, 0)) identity3)
       (- 5, - 5, - 5)) 1 = Inr (0, 0, 0)"
proof -
  have i: "index ramp_scanner01 = index (scanner01 ramp_isomorphism)"
    "index (set_translation ramp_scanner02 t) = index (scanner02 ramp_isomorphism)" for t
    by (simp_all add: ramp_isomorphism_def set_translation_def)
  have m: "map_d ramp_isomorphism = (0, 1) # [(1, 2)]"
    by (simp add: ramp_isomorphism_def)
  have n: "0 < length (scans ramp_scanner01)" "1 < length (scans (set_translation ramp_scanner02 t))" for t
    by (simp_all add: ramp_scanner01_def ramp_scanner02_def scanner_of_def scans_build_graph
          add_scan_def new_Scanner_def)
  note th1 = C9_translation_at_entry [OF i ramp_rotation(1) m n]
  note th2 = C9_translation_at_entry [OF i ramp_rotation(2) m n]
  have a: "translation (set_translation ramp_scanner02 (1, 0, 0)) \<noteq> zeros3"
    "translation (set_translation ramp_scanner02 (0, 0, 0)) = zeros3"
    by (simp_all add: set_translation_def zeros3_def)
  have f: "find_translation (reset_translation (reset_rotation ramp_scanner01))
             (set_rotation (set_translation ramp_scanner02 (0, 0, 0)) identity3)
             (map_d ramp_isomorphism) = Inr (- 5, - 5, - 5)"
    by code_simp
  have z: "scans ramp_scanner01 ! 0 = (0, 0, 0)"
    by code_simp
  from th1 th2 a f z show ?thesis
    by auto
qed

subsection \<open>The reference scanner stays in the reference frame\<close>

lemma reference_frame_add_scan [simp]: "reference_frame (add_scan s p) = reference_frame s"
  by (simp add: reference_frame_def add_scan_def)

lemma reference_frame_build_graph [simp]: "reference_frame (build_graph s) = reference_frame s"
  by (simp add: reference_frame_def build_graph_def Let_def)

lemma reference_frame_foldl_add_scan [simp]:
  "reference_frame (foldl add_scan s ps) = reference_frame s"
  by (induction ps arbitrary: s) simp_all

lemma reference_frame_merge_loop [simp]:
  "reference_frame (merge_loop s ps) = reference_frame s"
  by (induction ps arbitrary: s) simp_all

lemma reference_frame_merge [simp]:
  "reference_frame (merge_02_into_01 s01 s02) = reference_frame s01"
  by (simp add: merge_02_into_01_def)

lemma orient_resets:
  "orient_02_to_01 s01 s02 ism = Inr (a, b) \<Longrightarrow> reference_frame a"
  by (auto simp: orient_02_to_01_def Let_def bind_err_eq_Inr reference_frame_def
        reset_translation_def reset_rotation_def split: if_splits)

lemma driver_step_reference:
  assumes "driver_step st = Inr st'" and "reference_frame (scanner00 st)"
  shows "reference_frame (scanner00 st')"
  using assms
  by (auto simp: driver_step_def Let_def bind_err_eq_Inr
        split: list.splits if_splits prod.splits dest!: orient_resets)

lemma driver_steps_reference:
  "driver_steps n st = Inr st' \<Longrightarrow> reference_frame (scanner00 st) \<Longrightarrow> reference_frame (scanner00 st')"
proof (induction n arbitrary: st)
  case 0
  then show ?case by simp
next
  case (Suc n)
  show ?case
  proof (cases "unoriented_scanners st = []")
    case True
    with Suc.prems show ?thesis by simp
  next
    case False
    with Suc.prems(1) obtain st1 where "driver_step st = Inr st1" "driver_steps n st1 = Inr st'"
      by (auto simp: bind_err_eq_Inr)
    with Suc.IH [of st1] driver_step_reference [of st st1] Suc.prems(2) show ?thesis by blast
  qed
qed

lemma reference_frame_new_Scanner [simp]: "reference_frame (new_Scanner idx)"
  by (simp add: reference_frame_def new_Scanner_def)

lemma driver_init_reference:
  "driver_init (load_scanners input) = Inr st \<Longrightarrow> reference_frame (scanner00 st)"
  by (auto simp: driver_init_def load_scanners_def split: prod.splits list.splits)

lemma get_scan_reference:
  "reference_frame s \<Longrightarrow> i < size_scanner s \<Longrightarrow> get_scan s i = Inr (scans s ! i)"
  by (cases "scans s ! i")
     (simp add: reference_frame_def get_scan_def nth_err_def size_scanner_def transform_def
        identity3_def zeros3_def)

text \<open>
  C10.  After any number of iterations of the worklist loop, started from the loaded
  scanners, the reference scanner has the identity rotation and the zero translation, so
  \<open>get_scan\<close> returns its stored points unchanged.
\<close>

theorem C10_reference_frame:
  assumes "driver_init (load_scanners input) = Inr st0" and "driver_steps n st0 = Inr st"
  shows "rotation_matrix (scanner00 st) = identity3 \<and> translation (scanner00 st) = zeros3 \<and>
         (\<forall>i<size_scanner (scanner00 st). get_scan (scanner00 st) i = Inr (scans (scanner00 st) ! i))"
proof -
  have "reference_frame (scanner00 st)"
    using driver_steps_reference [OF assms(2)] driver_init_reference [OF assms(1)] .
  then show ?thesis
    using get_scan_reference by (auto simp: reference_frame_def)
qed

end
